theory Spec2Isabelle
  imports Complex_Main "HOL-Library.Multiset"
begin

section \<open>Reliability of series/parallel systems (pSystem.py)\<close>

text \<open>
  The module has two classes. A \<open>Component\<close> stores a rate \<open>l\<close> and answers
  \<open>p(t) = np.exp(-l * t)\<close>. A \<open>System\<close> stores a list of children and two boolean
  flags; its \<open>p(t)\<close> asks every child for \<open>p(t)\<close> and combines the answers with the
  parallel law when \<open>parallel\<close> is set, else with the series law when \<open>series\<close> is set,
  and falls off the end of the method (returning Python's \<open>None\<close>) when neither is.

  Conventions of the embedding:
  \<^item> in the functions \<open>p\<close> and \<open>condProb\<close> a finite Python/numpy float is an exact
    \<open>real\<close> and \<open>*\<close>, \<open>-\<close> are the exact operations: what is proved of them names the
    operations the code performs, and leaves their binary64 rounding open;
  \<^item> the function \<open>p64\<close> is the same method with every product and difference rounded
    to binary64 (round to nearest, ties to even; overflow and subnormal numbers are
    not modelled). \<open>np.exp\<close> is a parameter of \<open>p64\<close>: numpy, not this module, fixes
    the float it returns;
  \<^item> \<open>NaN\<close> is kept as a value of its own, because \<open>np.fromiter(..., float)\<close> stores
    \<open>None\<close> as nan, and nan then propagates through every product and difference;
  \<^item> an exception is the left summand of \<open>error + 'a\<close>;
  \<^item> the children form a finite tree (the datatype \<open>node\<close>), so a System that contains
    itself, on which the source recurses forever, is outside the model.
\<close>

subsection \<open>Values and errors\<close>

datatype npfloat = Fin real | NaN

datatype pyval = PyNone | PyFloat npfloat

text \<open>
  \<open>TypeError\<close> is what Python raises for arithmetic on \<open>None\<close>; \<open>AttributeError\<close> is
  what a call of \<open>condProb\<close> on an object without that method raises.
  \<open>InvalidArgument\<close> is the error kind named by the specification; no statement of
  the source raises it.
\<close>

datatype error = TypeError | AttributeError | InvalidArgument

fun fmul :: "npfloat \<Rightarrow> npfloat \<Rightarrow> npfloat" where
  "fmul (Fin a) (Fin b) = Fin (a * b)"
| "fmul _ _ = NaN"

fun fsub :: "npfloat \<Rightarrow> npfloat \<Rightarrow> npfloat" where
  "fsub (Fin a) (Fin b) = Fin (a - b)"
| "fsub _ _ = NaN"

text \<open>Python's binary \<open>-\<close> and \<open>*\<close> on the values that occur here.\<close>

fun py_sub :: "pyval \<Rightarrow> pyval \<Rightarrow> error + pyval" where
  "py_sub (PyFloat a) (PyFloat b) = Inr (PyFloat (fsub a b))"
| "py_sub _ _ = Inl TypeError"

fun py_mul :: "pyval \<Rightarrow> pyval \<Rightarrow> error + pyval" where
  "py_mul (PyFloat a) (PyFloat b) = Inr (PyFloat (fmul a b))"
| "py_mul _ _ = Inl TypeError"

text \<open>The literal \<open>1\<close> of the source, as an operand of float arithmetic.\<close>

definition py_one :: pyval where
  "py_one = PyFloat (Fin 1)"

subsection \<open>The numpy calls\<close>

text \<open>
  \<open>np.fromiter(it, float)\<close> draws the items of the generator one by one. An item
  whose computation raises ends the call with that exception; an item that is
  \<open>None\<close> is stored as nan.
\<close>

fun to_float :: "pyval \<Rightarrow> npfloat" where
  "to_float PyNone = NaN"
| "to_float (PyFloat x) = x"

fun np_fromiter :: "(error + pyval) list \<Rightarrow> error + npfloat list" where
  "np_fromiter [] = Inr []"
| "np_fromiter (Inl e # rs) = Inl e"
| "np_fromiter (Inr v # rs) =
     (case np_fromiter rs of
        Inl e \<Rightarrow> Inl e
      | Inr xs \<Rightarrow> Inr (to_float v # xs))"

text \<open>\<open>np.prod\<close> multiplies the entries from left to right, starting from 1.\<close>

definition np_prod :: "npfloat list \<Rightarrow> npfloat" where
  "np_prod xs = foldl fmul (Fin 1) xs"

subsection \<open>The classes\<close>

datatype node =
  Component real
| System "node list" bool bool

text \<open>The constructors store their arguments and check nothing.\<close>

definition Component_init :: "real \<Rightarrow> error + node" where
  "Component_init l = Inr (Component l)"

definition System_init :: "node list \<Rightarrow> bool \<Rightarrow> bool \<Rightarrow> error + node" where
  "System_init componentsAndSubSystems parallel series =
     Inr (System componentsAndSubSystems parallel series)"

definition Component_p :: "real \<Rightarrow> real \<Rightarrow> error + pyval" where
  "Component_p l t = Inr (PyFloat (Fin (exp (- l * t))))"

text \<open>
  \<open>generateQ = lambda t, c: 1 - c.p(t)\<close> and \<open>generateP = lambda t, c: c.p(t)\<close>,
  applied to the outcome of the child's \<open>p(t)\<close>.
\<close>

fun generateQ :: "error + pyval \<Rightarrow> error + pyval" where
  "generateQ (Inl e) = Inl e"
| "generateQ (Inr v) = py_sub py_one v"

definition generateP :: "error + pyval \<Rightarrow> error + pyval" where
  "generateP r = r"

fun p :: "node \<Rightarrow> real \<Rightarrow> error + pyval" where
  "p (Component l) t = Component_p l t"
| "p (System comps parallel series) t =
     (if parallel then
        (case np_fromiter (map (\<lambda>c. generateQ (p c t)) comps) of
           Inl e \<Rightarrow> Inl e
         | Inr allQ \<Rightarrow> Inr (PyFloat (fsub (Fin 1) (np_prod allQ))))
      else if series then
        (case np_fromiter (map (\<lambda>c. generateP (p c t)) comps) of
           Inl e \<Rightarrow> Inl e
         | Inr allP \<Rightarrow> Inr (PyFloat (np_prod allP)))
      else Inr PyNone)"

text \<open>
  \<open>condProb\<close> is a method of System only. With \<open>negate\<close> it returns
  \<open>self.p(t) * (1 - dependence.p(t))\<close>, otherwise \<open>self.p(t) * dependence.p(t)\<close>;
  Python evaluates the left factor first.
\<close>

fun condProb :: "node \<Rightarrow> node \<Rightarrow> real \<Rightarrow> bool \<Rightarrow> error + pyval" where
  "condProb (Component l) dependence t negate = Inl AttributeError"
| "condProb (System comps parallel series) dependence t negate =
     (case p (System comps parallel series) t of
        Inl e \<Rightarrow> Inl e
      | Inr a \<Rightarrow>
          (case p dependence t of
             Inl e \<Rightarrow> Inl e
           | Inr b \<Rightarrow>
               (if negate then
                  (case py_sub py_one b of
                     Inl e \<Rightarrow> Inl e
                   | Inr q \<Rightarrow> py_mul a q)
                else py_mul a b)))"

text \<open>
  A tree is \<open>configured\<close> when every Component has a rate \<open>l \<ge> 0\<close> and every System
  has at least one of its two flags set. The source does not check this; the
  predicate only names the trees on which \<open>p\<close> is a probability.
\<close>

fun configured :: "node \<Rightarrow> bool" where
  "configured (Component l) = (0 \<le> l)"
| "configured (System comps parallel series) =
     ((parallel \<or> series) \<and> list_all configured comps)"

subsection \<open>The same methods in binary64\<close>












section \<open>Auxiliary facts\<close>

subsection \<open>Float arithmetic and the numpy calls\<close>


lemma foldl_fmul_Fin: "foldl fmul (Fin a) (map Fin xs) = Fin (a * prod_list xs)"
  by (induction xs arbitrary: a) (simp_all add: mult.assoc)

lemma np_prod_Fin: "np_prod (map Fin xs) = Fin (prod_list xs)"
  by (simp add: np_prod_def foldl_fmul_Fin)


lemma np_fromiter_floats:
  "np_fromiter (map (\<lambda>x. Inr (PyFloat (f x))) xs) = Inr (map f xs)"
  by (induction xs) simp_all

lemma np_fromiter_error_mem: "np_fromiter rs = Inl e \<Longrightarrow> Inl e \<in> set rs"
  by (induction rs rule: np_fromiter.induct) (auto split: sum.splits)


lemma prod_list_unit:
  "\<forall>x\<in>set xs. 0 \<le> x \<and> x \<le> (1::real) \<Longrightarrow> 0 \<le> prod_list xs \<and> prod_list xs \<le> 1"
  by (induction xs) (auto intro: mult_le_one)

subsection \<open>The only exception of \<open>p\<close> is TypeError\<close>

lemma generateQ_error: "generateQ r = Inl e \<Longrightarrow> r = Inl e \<or> e = TypeError"
  by (cases r; cases "projr r") (auto simp: py_one_def elim: py_sub.elims)

lemma p_error_TypeError: "p n t = Inl e \<Longrightarrow> e = TypeError"
proof (induction n t arbitrary: e rule: p.induct)
  case (1 l t)
  then show ?case by (simp add: Component_p_def)
next
  case (2 comps parallel series t)
  show ?case
  proof (cases parallel)
    case True
    with "2.prems" have "np_fromiter (map (\<lambda>c. generateQ (p c t)) comps) = Inl e"
      by (simp split: sum.splits)
    then have "Inl e \<in> (\<lambda>c. generateQ (p c t)) ` set comps"
      using np_fromiter_error_mem by fastforce
    then obtain c where c: "c \<in> set comps" "generateQ (p c t) = Inl e"
      by (auto simp: image_iff)
    then show ?thesis using "2.IH"(1) [OF True c(1)] generateQ_error [OF c(2)] by blast
  next
    case False
    with "2.prems" have ser: series and
      "np_fromiter (map (\<lambda>c. generateP (p c t)) comps) = Inl e"
      by (simp_all split: sum.splits if_splits)
    then have "Inl e \<in> (\<lambda>c. p c t) ` set comps"
      using np_fromiter_error_mem by (fastforce simp: generateP_def)
    then obtain c where c: "c \<in> set comps" "p c t = Inl e"
      by (auto simp: image_iff)
    then show ?thesis using "2.IH"(2) [OF False ser c(1)] by blast
  qed
qed

subsection \<open>Children that all return numbers\<close>

lemma map_p_floats:
  "\<forall>c\<in>set cs. p c t = Inr (PyFloat (Fin (f c))) \<Longrightarrow>
     map (\<lambda>c. generateP (p c t)) cs = map (\<lambda>c. Inr (PyFloat (Fin (f c)))) cs"
  by (simp add: generateP_def)

lemma map_q_floats:
  "\<forall>c\<in>set cs. p c t = Inr (PyFloat (Fin (f c))) \<Longrightarrow>
     map (\<lambda>c. generateQ (p c t)) cs = map (\<lambda>c. Inr (PyFloat (Fin (1 - f c)))) cs"
  by (simp add: py_one_def)

lemma series_of_floats:
  assumes "\<forall>c\<in>set comps. p c t = Inr (PyFloat (Fin (f c)))"
  shows "p (System comps False True) t = Inr (PyFloat (Fin (prod_list (map f comps))))"
proof -
  have "np_fromiter (map (\<lambda>c. generateP (p c t)) comps) = Inr (map (\<lambda>c. Fin (f c)) comps)"
    by (simp only: map_p_floats [OF assms] np_fromiter_floats [of "\<lambda>c. Fin (f c)" comps])
  moreover have "np_prod (map (\<lambda>c. Fin (f c)) comps) = Fin (prod_list (map f comps))"
    using np_prod_Fin [of "map f comps"] by (simp add: comp_def)
  ultimately show ?thesis by simp
qed

lemma parallel_of_floats:
  assumes "\<forall>c\<in>set comps. p c t = Inr (PyFloat (Fin (f c)))"
  shows "p (System comps True series) t
           = Inr (PyFloat (Fin (1 - prod_list (map (\<lambda>c. 1 - f c) comps))))"
proof -
  have "np_fromiter (map (\<lambda>c. generateQ (p c t)) comps)
          = Inr (map (\<lambda>c. Fin (1 - f c)) comps)"
    by (simp only: map_q_floats [OF assms] np_fromiter_floats [of "\<lambda>c. Fin (1 - f c)" comps])
  moreover have "np_prod (map (\<lambda>c. Fin (1 - f c)) comps)
          = Fin (prod_list (map (\<lambda>c. 1 - f c) comps))"
    using np_prod_Fin [of "map (\<lambda>c. 1 - f c) comps"] by (simp add: comp_def)
  ultimately show ?thesis by simp
qed

lemma unit_interval_step:
  assumes flag: "parallel \<or> series"
    and kids: "\<forall>c\<in>set comps. \<exists>x. p c t = Inr (PyFloat (Fin x)) \<and> 0 \<le> x \<and> x \<le> 1"
  shows "\<exists>y. p (System comps parallel series) t = Inr (PyFloat (Fin y)) \<and> 0 \<le> y \<and> y \<le> 1"
proof -
  from kids obtain f
    where f: "\<forall>c\<in>set comps. p c t = Inr (PyFloat (Fin (f c))) \<and> 0 \<le> f c \<and> f c \<le> 1"
    by (auto dest!: bchoice)
  then have vals: "\<forall>c\<in>set comps. p c t = Inr (PyFloat (Fin (f c)))" by simp
  show ?thesis
  proof (cases parallel)
    case True
    have "\<forall>x\<in>set (map (\<lambda>c. 1 - f c) comps). 0 \<le> x \<and> x \<le> 1" using f by simp
    then have "0 \<le> prod_list (map (\<lambda>c. 1 - f c) comps)
        \<and> prod_list (map (\<lambda>c. 1 - f c) comps) \<le> 1"
      by (rule prod_list_unit)
    then show ?thesis using parallel_of_floats [OF vals, of series] True by simp
  next
    case False
    then have series using flag by simp
    have "\<forall>x\<in>set (map f comps). 0 \<le> x \<and> x \<le> 1" using f by simp
    then have "0 \<le> prod_list (map f comps) \<and> prod_list (map f comps) \<le> 1"
      by (rule prod_list_unit)
    then show ?thesis using series_of_floats [OF vals] False \<open>series\<close> by simp
  qed
qed

text \<open>
  On a configured tree and for \<open>t \<ge> 0\<close>, \<open>p\<close> raises nothing and returns a number
  of the unit interval, whatever the nesting.
\<close>

lemma configured_unit_interval:
  "configured n \<Longrightarrow> 0 \<le> t \<Longrightarrow> \<exists>y. p n t = Inr (PyFloat (Fin y)) \<and> 0 \<le> y \<and> y \<le> 1"
proof (induction n)
  case (Component l)
  then show ?case by (simp add: Component_p_def)
next
  case (System comps parallel series)
  then have "\<forall>c\<in>set comps. \<exists>x. p c t = Inr (PyFloat (Fin x)) \<and> 0 \<le> x \<and> x \<le> 1"
    by (simp add: list_all_iff)
  moreover have "parallel \<or> series" using System.prems by simp
  ultimately show ?case by (rule unit_interval_step [rotated])
qed

subsection \<open>Reordering the children\<close>



subsection \<open>Rounding to binary64\<close>

















section \<open>The claims\<close>

text \<open>
  C1. A System in SERIES topology (\<open>series\<close> set, \<open>parallel\<close> not set) whose children
  return the probabilities \<open>f c\<close> at time \<open>t\<close> returns their product.
\<close>

theorem System_p_series:
  assumes "\<forall>c\<in>set comps. p c t = Inr (PyFloat (Fin (f c)))"
  shows "p (System comps False True) t = Inr (PyFloat (Fin (prod_list (map f comps))))"
  using assms by (rule series_of_floats)

theorem System_p_series_witness:
  "p (Component 1) 3 = Inr (PyFloat (Fin (exp (- 3))))
   \<and> p (Component 2) 3 = Inr (PyFloat (Fin (exp (- 6))))
   \<and> p (System [Component 1, Component 2] False True) 3
       = Inr (PyFloat (Fin (exp (- 3) * exp (- 6))))"
  using System_p_series [of "[Component 1, Component 2]" 3
      "\<lambda>c. case c of Component l \<Rightarrow> exp (- l * 3) | System cs a b \<Rightarrow> 0"]
  by (simp add: Component_p_def)

text \<open>
  C2. A System in PARALLEL topology (\<open>parallel\<close> set) whose children return the
  probabilities \<open>f c\<close> at time \<open>t\<close> returns one minus the product of the
  complements \<open>1 - f c\<close>.
\<close>

theorem System_p_parallel:
  assumes "\<forall>c\<in>set comps. p c t = Inr (PyFloat (Fin (f c)))"
  shows "p (System comps True series) t
           = Inr (PyFloat (Fin (1 - prod_list (map (\<lambda>c. 1 - f c) comps))))"
  using assms by (rule parallel_of_floats)

theorem System_p_parallel_witness:
  "p (Component 1) 3 = Inr (PyFloat (Fin (exp (- 3))))
   \<and> p (Component 2) 3 = Inr (PyFloat (Fin (exp (- 6))))
   \<and> p (System [Component 1, Component 2] True False) 3
       = Inr (PyFloat (Fin (1 - (1 - exp (- 3)) * (1 - exp (- 6)))))"
  using System_p_parallel [of "[Component 1, Component 2]" 3
      "\<lambda>c. case c of Component l \<Rightarrow> exp (- l * 3) | System cs a b \<Rightarrow> 0" False]
  by (simp add: Component_p_def)

text \<open>
  C3. A Component with rate \<open>l\<close> answers \<open>p(t) = exp(-l * t)\<close>; in particular for
  every \<open>l \<ge> 0\<close> and \<open>t \<ge> 0\<close>. The method has no other branch, so the
  equation holds for every rate and every time.
\<close>

theorem Component_p_exp:
  "p (Component l) t = Inr (PyFloat (Fin (exp (- l * t))))"
  by (simp add: Component_p_def)

text \<open>
  C4. When the System returns the number \<open>a\<close> and the dependence returns the number
  \<open>b\<close> at time \<open>t\<close>, \<open>condProb\<close> returns \<open>a * b\<close> without \<open>negate\<close> and
  \<open>a * (1 - b)\<close> with it.
\<close>

theorem condProb_product:
  assumes "p (System comps parallel series) t = Inr (PyFloat (Fin a))"
    and "p dependence t = Inr (PyFloat (Fin b))"
  shows "condProb (System comps parallel series) dependence t False
           = Inr (PyFloat (Fin (a * b)))
       \<and> condProb (System comps parallel series) dependence t True
           = Inr (PyFloat (Fin (a * (1 - b))))"
  using assms by (simp add: py_one_def del: p.simps)

theorem condProb_product_witness:
  "p (System [Component 1] False True) 2 = Inr (PyFloat (Fin (exp (- 2))))
   \<and> p (Component 3) 2 = Inr (PyFloat (Fin (exp (- 6))))
   \<and> condProb (System [Component 1] False True) (Component 3) 2 False
       = Inr (PyFloat (Fin (exp (- 2) * exp (- 6))))
   \<and> condProb (System [Component 1] False True) (Component 3) 2 True
       = Inr (PyFloat (Fin (exp (- 2) * (1 - exp (- 6)))))"
proof -
  have a: "p (System [Component 1] False True) 2 = Inr (PyFloat (Fin (exp (- 2))))"
    by (simp add: Component_p_def generateP_def np_prod_def)
  have b: "p (Component 3) 2 = Inr (PyFloat (Fin (exp (- 6))))"
    by (simp add: Component_p_def)
  show ?thesis using a b condProb_product [OF a b] by simp
qed

text \<open>
  C5, as stated, fails: a System built with neither flag (the constructor's
  defaults) returns \<open>None\<close> from \<open>p\<close>, although its only child returns a
  probability of the unit interval.
\<close>

theorem System_p_neither_flag_None:
  "p (Component (1/2)) 1 = Inr (PyFloat (Fin (exp (- (1/2)))))
   \<and> 0 \<le> exp (- (1/2) :: real) \<and> exp (- (1/2) :: real) \<le> 1
   \<and> p (System [Component (1/2)] False False) 1 = Inr PyNone"
  by (simp add: Component_p_def)

text \<open>
  C5, amended. A System with at least one of its flags set, whose children all
  return numbers of the interval \<open>[0, 1]\<close> at time \<open>t\<close>, returns a number of the
  interval \<open>[0, 1]\<close>.
\<close>

theorem System_p_unit_interval:
  assumes "parallel \<or> series"
    and "\<forall>c\<in>set comps. \<exists>x. p c t = Inr (PyFloat (Fin x)) \<and> 0 \<le> x \<and> x \<le> 1"
  shows "\<exists>y. p (System comps parallel series) t = Inr (PyFloat (Fin y)) \<and> 0 \<le> y \<and> y \<le> 1"
  using assms by (rule unit_interval_step)

theorem System_p_unit_interval_witness:
  "p (Component (1/2)) 1 = Inr (PyFloat (Fin (exp (- (1/2)))))
   \<and> p (Component 2) 1 = Inr (PyFloat (Fin (exp (- 2))))
   \<and> 0 \<le> exp (- (1/2) :: real) \<and> exp (- (1/2) :: real) \<le> 1
   \<and> 0 \<le> exp (- 2 :: real) \<and> exp (- 2 :: real) \<le> 1
   \<and> (\<exists>y. p (System [Component (1/2), Component 2] True False) 1 = Inr (PyFloat (Fin y))
          \<and> 0 \<le> y \<and> y \<le> 1)"
proof -
  have kids: "\<forall>c\<in>set [Component (1/2), Component 2].
      \<exists>x. p c 1 = Inr (PyFloat (Fin x)) \<and> 0 \<le> x \<and> x \<le> 1"
    by (simp add: Component_p_def)
  have "\<exists>y. p (System [Component (1/2), Component 2] True False) 1 = Inr (PyFloat (Fin y))
          \<and> 0 \<le> y \<and> y \<le> 1"
    using System_p_unit_interval [of True False "[Component (1/2), Component 2]" 1] kids
    by blast
  then show ?thesis by (simp add: Component_p_def)
qed







text \<open>
  C8, as stated, fails: a Component is constructed with the rate \<open>-1\<close>, \<open>p\<close> is
  called with \<open>t = -1\<close> and returns \<open>exp 1\<close>, and a System is constructed with no
  children; none of the three raises.
\<close>

theorem unvalidated_arguments_accepted:
  "Component_init (- 1) = Inr (Component (- 1))
   \<and> p (Component 1) (- 1) = Inr (PyFloat (Fin (exp 1)))
   \<and> System_init [] False True = Inr (System [] False True)"
  by (simp add: Component_init_def System_init_def Component_p_def)

text \<open>
  C8, amended. Constructing a Component succeeds for every rate, constructing a
  System succeeds for every children list and every pair of flags, and \<open>p\<close> raises
  InvalidArgument for no node and no time.
\<close>

theorem no_InvalidArgument:
  "Component_init l = Inr (Component l)
   \<and> System_init comps parallel series = Inr (System comps parallel series)
   \<and> p n t \<noteq> Inl InvalidArgument"
  using p_error_TypeError [of n t InvalidArgument]
  by (auto simp: Component_init_def System_init_def)


text \<open>
  C10. A System without children returns 0 when \<open>parallel\<close> is set and 1 when only
  \<open>series\<close> is set; it raises nothing.
\<close>

theorem empty_children:
  "p (System [] True series) t = Inr (PyFloat (Fin 0))
   \<and> p (System [] False True) t = Inr (PyFloat (Fin 1))"
  by (simp add: np_prod_def)

end
